theory Spec2Isabelle
  imports Main "HOL-Library.List_Lexorder" "HOL-Library.Sublist"
begin

section \<open>Python strings\<close>

text \<open>
  A Python \<open>str\<close> is a sequence of Unicode code points; \<open>len\<close>, \<open>strip\<close>,
  \<open>endswith\<close> and \<open>in\<close> work on code points. The messages of \<open>server.py\<close> are Korean
  text, so a string is modelled as the list of its code points. \<open>ascii\<close> embeds a
  literal whose characters are all ASCII.
\<close>

type_synonym pystr = "nat list"

definition ascii :: "string \<Rightarrow> pystr" where
  "ascii s = map of_char s"

definition NL :: nat where
  "NL = 10"

definition CR :: nat where
  "CR = 13"

text \<open>
  \<open>str.isspace\<close> of one code point, as CPython's \<open>_PyUnicode_IsWhitespace\<close> lists
  them; \<open>strip()\<close>, \<open>rstrip()\<close> and \<open>split()\<close> without argument use it.
\<close>

definition isspace :: "nat \<Rightarrow> bool" where
  "isspace c \<longleftrightarrow>
     (9 \<le> c \<and> c \<le> 13) \<or> (28 \<le> c \<and> c \<le> 32) \<or> c = 133 \<or> c = 160 \<or> c = 5760 \<or>
     (8192 \<le> c \<and> c \<le> 8202) \<or> c = 8232 \<or> c = 8233 \<or> c = 8239 \<or> c = 8287 \<or>
     c = 12288"

definition str_lstrip :: "pystr \<Rightarrow> pystr" where
  "str_lstrip s = dropWhile isspace s"

definition str_rstrip :: "pystr \<Rightarrow> pystr" where
  "str_rstrip s = rev (dropWhile isspace (rev s))"

definition str_strip :: "pystr \<Rightarrow> pystr" where
  "str_strip s = str_lstrip (str_rstrip s)"

text \<open>\<open>s.rstrip(chars)\<close>: drops the trailing code points that occur in \<open>chars\<close>.\<close>

definition str_rstrip_chars :: "pystr \<Rightarrow> pystr \<Rightarrow> pystr" where
  "str_rstrip_chars chars s = rev (dropWhile (\<lambda>c. c \<in> set chars) (rev s))"

definition str_endswith :: "pystr \<Rightarrow> pystr \<Rightarrow> bool" where
  "str_endswith s suf \<longleftrightarrow>
     length suf \<le> length s \<and> drop (length s - length suf) s = suf"

text \<open>\<open>pat in s\<close>: \<open>pat\<close> occurs in \<open>s\<close> as a contiguous substring.\<close>

fun str_contains :: "pystr \<Rightarrow> pystr \<Rightarrow> bool" where
  "str_contains pat [] = (pat = [])"
| "str_contains pat (c # cs) = (take (length pat) (c # cs) = pat \<or> str_contains pat cs)"

fun str_join :: "pystr \<Rightarrow> pystr list \<Rightarrow> pystr" where
  "str_join sep [] = []"
| "str_join sep [x] = x"
| "str_join sep (x # y # ys) = x @ sep @ str_join sep (y # ys)"

text \<open>\<open>s.split()\<close>: the maximal runs of non-whitespace code points, in order.\<close>

fun split_from :: "pystr \<Rightarrow> pystr \<Rightarrow> pystr list" where
  "split_from cur [] = (if cur = [] then [] else [cur])"
| "split_from cur (c # cs) =
     (if isspace c then (if cur = [] then split_from [] cs else cur # split_from [] cs)
      else split_from (cur @ [c]) cs)"

definition str_split :: "pystr \<Rightarrow> pystr list" where
  "str_split s = split_from [] s"

text \<open>
  \<open>s.lower()\<close>. On a string of ASCII code points it maps \<open>A..Z\<close> to \<open>a..z\<close> and
  changes nothing else. On any other string Python applies the Unicode case mapping
  of its runtime, which is no part of the repository: it is the parameter
  \<open>ulower\<close>.
\<close>

definition ascii_lower :: "nat \<Rightarrow> nat" where
  "ascii_lower c = (if 65 \<le> c \<and> c \<le> 90 then c + 32 else c)"

definition str_lower :: "(pystr \<Rightarrow> pystr) \<Rightarrow> pystr \<Rightarrow> pystr" where
  "str_lower ulower s =
     (if list_all (\<lambda>c. c < 128) s then map ascii_lower s else ulower s)"

section \<open>The child process and the globals\<close>

text \<open>
  An exception object, by the text that \<open>str(e)\<close> gives (all that the handlers of
  \<open>server.py\<close> use of it).
\<close>

datatype exn = Exn pystr

fun exn_str :: "exn \<Rightarrow> pystr" where
  "exn_str (Exn m) = m"

text \<open>
  The standard output of the child is a pipe under a buffered text stream
  (\<open>Popen\<close> with \<open>text=True\<close>, line 178). \<open>select\<close> polls the pipe; \<open>read(1)\<close> reads
  the stream, which takes out of the pipe whatever one read of it returns, hands
  over one character and holds the rest. The state of the two is the sequence of
  answers the program gets:
  \<^item> \<open>Chunk s\<close>: the pipe is readable, and one read of it returns the text \<open>s\<close> (as
    decoded by the stream, with every line ending translated to a line feed);
  \<^item> \<open>Held s\<close>: the text \<open>s\<close> was taken out of the pipe by an earlier read and is held
    by the stream: a poll does not see it, \<open>read(1)\<close> hands it over first;
  \<^item> \<open>Quiet\<close>: one poll of the pipe that times out;
  \<^item> \<open>Fault e\<close>: a poll that raises \<open>e\<close>.

  After the last event the pipe is either \<open>Closed\<close> (readable, and a read of it
  returns nothing) or \<open>Silent\<close> (every further poll times out). \<open>Chr c\<close> is a
  character that arrives on its own.
\<close>

datatype event = Chunk pystr | Held pystr | Quiet | Fault exn

abbreviation Chr :: "nat \<Rightarrow> event" where
  "Chr c \<equiv> Chunk [c]"

datatype tail = Closed | Silent

text \<open>
  The \<open>Popen\<close> object: what was written to the child's standard input, the faults its
  pipe and its signal delivery answer with, its standard output (what the stream
  holds and what the pipe will answer) and the answer of \<open>poll()\<close>.
\<close>

record child =
  stdin_log :: "pystr list"
  stdin_fault :: "exn option"
  flush_fault :: "exn option"
  out_events :: "event list"
  out_end :: tail
  terminate_fault :: "exn option"
  returncode :: "int option"

text \<open>Effects on the operating system that outlive the handle: processes spawned
  (with their argument vector) and termination requests delivered.\<close>

datatype os_action = Spawn "pystr list" | Terminate

text \<open>The module's globals \<open>gdb_process\<close> and \<open>is_connected\<close>, and the log of effects.\<close>

record state =
  gdb_process :: "child option"
  is_connected :: bool
  os_log :: "os_action list"

section \<open>The read loop of \<open>_execute_safe_command\<close>\<close>

definition PROMPT :: pystr where
  "PROMPT = ascii ''pwndbg>''"

text \<open>The entry appended when more than 200 lines were collected (line 93).\<close>

definition TRUNCATION_MARKER :: pystr where
  "TRUNCATION_MARKER =
     ascii ''... ('' @ [52636, 47141] @ ascii '' '' @ [51228, 54620] @ ascii '': 200'' @
     [51460] @ ascii '')''"

text \<open>
  \<open>select.select([stdout], [], [], slice)\<close> at clock \<open>t\<close> (milliseconds since
  \<open>start_time\<close>): the answer, the events left and the clock afterwards. It polls
  the pipe, so it looks past what the stream holds. A poll that finds the pipe
  readable takes no time and consumes nothing; one that times out takes the whole
  slice.
\<close>

fun select :: "tail \<Rightarrow> event list \<Rightarrow> nat \<Rightarrow> nat \<Rightarrow> (exn + bool) \<times> event list \<times> nat" where
  "select eos [] slice t =
     (case eos of Closed \<Rightarrow> (Inr True, [], t) | Silent \<Rightarrow> (Inr False, [], t + slice))"
| "select eos (Chunk s # rest) slice t = (Inr True, Chunk s # rest, t)"
| "select eos (Quiet # rest) slice t = (Inr False, rest, t + slice)"
| "select eos (Fault e # rest) slice t = (Inl e, rest, t)"
| "select eos (Held s # rest) slice t =
     (case select eos rest slice t of (r, rest', t') \<Rightarrow> (r, Held s # rest', t'))"

text \<open>
  \<open>stdout.read(1)\<close>, called after a poll found the pipe readable: the next character
  the stream holds; if it holds none, the first character of what a read of the
  pipe returns, the rest of which the stream then holds; the empty string when
  that read returns nothing (end of stream).
\<close>

fun read1 :: "event list \<Rightarrow> pystr \<times> event list" where
  "read1 (Held (c # s) # rest) = ([c], (if s = [] then rest else Held s # rest))"
| "read1 (Held [] # rest) = read1 rest"
| "read1 (Chunk (c # s) # rest) = ([c], (if s = [] then rest else Held s # rest))"
| "read1 (Chunk [] # rest) = ([], rest)"
| "read1 evs = ([], evs)"

text \<open>The size of what is pending: it bounds the characters the loops can still read.\<close>

fun weight :: "event \<Rightarrow> nat" where
  "weight (Chunk s) = Suc (length s)"
| "weight (Held s) = Suc (length s)"
| "weight Quiet = 1"
| "weight (Fault e) = 1"

definition pending :: "event list \<Rightarrow> nat" where
  "pending evs = sum_list (map weight evs)"

text \<open>Which exit the loop took; the source does not record it.\<close>

datatype exit_reason =
  PromptLine | PromptBuffer | OutputLimit | EndOfStream | IdleConfirmed | Deadline

text \<open>Lines 91-94: the output limit, checked after a character that did not end the loop.\<close>

definition limit_check :: "pystr list \<Rightarrow> pystr \<Rightarrow> exit_reason option \<times> pystr list \<times> pystr" where
  "limit_check output_lines buffer =
     (if length output_lines > 200
      then (Some OutputLimit, output_lines @ [TRUNCATION_MARKER], buffer)
      else (None, output_lines, buffer))"

text \<open>Lines 72-94: one character \<open>char\<close> was read. The result says whether the
  loop breaks, and gives \<open>output_lines\<close> and \<open>buffer\<close> afterwards.\<close>

definition on_char :: "nat \<Rightarrow> pystr list \<Rightarrow> pystr \<Rightarrow> exit_reason option \<times> pystr list \<times> pystr" where
  "on_char char output_lines buffer0 =
     (let buffer = buffer0 @ [char] in
      if char = NL then
        (let line = str_rstrip_chars [NL, CR] buffer;
             output_lines1 = (if line \<noteq> [] then output_lines @ [line] else output_lines)
         in if str_endswith line PROMPT then (Some PromptLine, output_lines1, [])
            else limit_check output_lines1 [])
      else if str_endswith buffer PROMPT then
        (Some PromptBuffer,
         if str_strip buffer \<noteq> [] then output_lines @ [str_rstrip buffer] else output_lines,
         buffer)
      else limit_check output_lines buffer)"

text \<open>The loop's variables: \<open>output_lines\<close>, \<open>buffer\<close>, the pipe's pending events and the
  clock \<open>time.time() - start_time\<close> in milliseconds.\<close>

type_synonym loop_state = "pystr list \<times> pystr \<times> event list \<times> nat"

datatype 'a step = Continue 'a | Break exit_reason 'a | Raised exn 'a

text \<open>Lines 66-106: the body of the \<open>while\<close> loop.\<close>

definition exec_step :: "tail \<Rightarrow> loop_state \<Rightarrow> loop_state step" where
  "exec_step eos s =
     (case s of (output_lines, buffer, evs, t) \<Rightarrow>
        (case select eos evs 100 t of
           (Inl e, evs1, t1) \<Rightarrow> Raised e (output_lines, buffer, evs1, t1)
         | (Inr True, evs1, t1) \<Rightarrow>
             (case read1 evs1 of
                ([], evs2) \<Rightarrow> Break EndOfStream (output_lines, buffer, evs2, t1)
              | (char # _, evs2) \<Rightarrow>
                  (case on_char char output_lines buffer of
                     (Some r, output_lines', buffer') \<Rightarrow> Break r (output_lines', buffer', evs2, t1)
                   | (None, output_lines', buffer') \<Rightarrow> Continue (output_lines', buffer', evs2, t1)))
         | (Inr False, evs1, t1) \<Rightarrow>
             (if output_lines \<noteq> [] \<and> buffer = [] then
                (case select eos evs1 10 (t1 + 50) of
                   (Inl e, evs2, t2) \<Rightarrow> Raised e (output_lines, buffer, evs2, t2)
                 | (Inr False, evs2, t2) \<Rightarrow> Break IdleConfirmed (output_lines, buffer, evs2, t2)
                 | (Inr True, evs2, t2) \<Rightarrow> Continue (output_lines, buffer, evs2, t2))
              else Continue (output_lines, buffer, evs1, t1 + 100))))"

text \<open>A poll never adds to what is pending and never turns the clock back; one that
  times out takes its slice. A read that returns a character takes it from what is
  pending.\<close>

lemma select_bounds:
  "select eos evs slice t = (r, evs', t') \<Longrightarrow>
   pending evs' \<le> pending evs \<and> t \<le> t' \<and> (r = Inr False \<longrightarrow> t' = t + slice)"
  by (induction eos evs slice t arbitrary: r evs' t' rule: select.induct)
    (auto simp: pending_def split: tail.splits prod.splits)

lemma read1_decreases: "read1 evs = (c # cs, evs') \<Longrightarrow> pending evs' < pending evs"
  by (induction evs arbitrary: evs' rule: read1.induct)
    (auto simp: pending_def split: if_splits)

lemma exec_step_decreases:
  assumes "exec_step eos (ls, buf, evs, t) = Continue (ls', buf', evs', t')" and "t < 5000"
  shows "(5000 - t') + pending evs' < (5000 - t) + pending evs"
proof -
  obtain r evs1 t1 where sel: "select eos evs 100 t = (r, evs1, t1)"
    by (cases "select eos evs 100 t")
  note b1 = select_bounds [OF sel]
  show ?thesis
  proof (cases r)
    case (Inl e)
    with assms sel show ?thesis
      by (simp add: exec_step_def)
  next
    case (Inr ready)
    show ?thesis
    proof (cases ready)
      case True
      obtain cs evs2 where rd: "read1 evs1 = (cs, evs2)"
        by (cases "read1 evs1")
      with assms sel Inr True obtain c cs' where cs: "cs = c # cs'"
        by (cases cs) (auto simp: exec_step_def)
      have "pending evs2 < pending evs1"
        using rd cs by (auto dest: read1_decreases)
      moreover have "evs' = evs2" and "t' = t1"
        using assms sel Inr True rd cs
        by (auto simp: exec_step_def split: prod.splits option.splits)
      ultimately show ?thesis
        using b1 assms(2) by auto
    next
      case False
      with b1 Inr have t1: "t1 = t + 100"
        by simp
      obtain r2 evs2 t2 where sel2: "select eos evs1 10 (t1 + 50) = (r2, evs2, t2)"
        by (cases "select eos evs1 10 (t1 + 50)")
      note b2 = select_bounds [OF sel2]
      have "pending evs' \<le> pending evs \<and> t + 100 \<le> t'"
        using assms sel Inr False sel2 b1 b2 t1
        by (auto simp: exec_step_def split: if_splits sum.splits bool.splits)
      then show ?thesis
        using assms(2) by auto
    qed
  qed
qed

text \<open>Line 65: \<open>while time.time() - start_time < timeout\<close>, with \<open>timeout = 5.0\<close>.\<close>

function exec_loop :: "tail \<Rightarrow> loop_state \<Rightarrow> (exn + exit_reason) \<times> loop_state" where
  "exec_loop eos (ls, buf, evs, t) =
     (if t < 5000 then
        (case exec_step eos (ls, buf, evs, t) of
           Continue s' \<Rightarrow> exec_loop eos s'
         | Break r s' \<Rightarrow> (Inr r, s')
         | Raised e s' \<Rightarrow> (Inl e, s'))
      else (Inr Deadline, (ls, buf, evs, t)))"
  by pat_completeness auto
termination
proof (relation "measure (\<lambda>(eos, ls, buf, evs, t). (5000 - t) + pending evs)")
  show "wf (measure (\<lambda>(eos, ls, buf, evs, t). (5000 - t) + pending evs))"
    by simp
next
  fix eos :: tail and ls buf evs t s'
  assume "t < 5000" and "exec_step eos (ls, buf, evs, t) = Continue s'"
  then show "((eos, s'), eos, ls, buf, evs, t)
      \<in> measure (\<lambda>(eos, ls, buf, evs, t). (5000 - t) + pending evs)"
    using exec_step_decreases [of eos ls buf evs t] by (cases s') auto
qed

section \<open>\<open>_execute_safe_command\<close>\<close>

definition msg_not_connected :: pystr where
  "msg_not_connected =
     ascii ''Error: GDB '' @ [49464, 49496, 51060] @ ascii '' '' @ [50672, 44208, 46104, 51648] @
     ascii '' '' @ [50506, 51020] @ ascii ''. start_debug_session()'' @ [51012] @ ascii '' '' @
     [47676, 51200] @ ascii '' '' @ [49892, 54665, 54616, 49464, 50836] @ ascii ''.''"

text \<open>Line 115: the command ran and its output is only whitespace.\<close>

definition msg_done :: "pystr \<Rightarrow> pystr" where
  "msg_done command =
     [47749, 47161, 50612] @ ascii '' '' @ [39] @ command @ [39] @ ascii '' '' @ [49892, 54665] @
     ascii '' '' @ [50756, 47308]"

text \<open>Line 117: no line was collected.\<close>

definition msg_no_response :: "pystr \<Rightarrow> pystr" where
  "msg_no_response command =
     [47749, 47161, 50612] @ ascii '' '' @ [39] @ command @ [39] @ ascii '' '' @
     [49892, 54665, 46120] @ ascii '' ('' @ [51025, 45813] @ ascii '' '' @ [50630, 51020] @
     ascii '')''"

text \<open>Line 120: the handler of \<open>except Exception as e\<close>.\<close>

definition msg_exec_failed :: "exn \<Rightarrow> pystr" where
  "msg_exec_failed e =
     [47749, 47161, 50612] @ ascii '' '' @ [49892, 54665] @ ascii '' '' @ [49892, 54056] @
     ascii '': '' @ exn_str e"

text \<open>Lines 108-117: what is returned once the loop has ended.\<close>

definition finish :: "pystr \<Rightarrow> pystr list \<Rightarrow> pystr \<Rightarrow> pystr" where
  "finish command output_lines buffer =
     (let output_lines1 =
            (if str_strip buffer \<noteq> [] then output_lines @ [str_strip buffer] else output_lines)
      in if output_lines1 \<noteq> [] then
           (let result = str_join [NL] output_lines1
            in if str_strip result \<noteq> [] then result else msg_done command)
         else msg_no_response command)"

text \<open>\<open>gdb_process.stdin\<close> when \<open>gdb_process\<close> is \<open>None\<close>.\<close>

definition none_has_no_stdin :: exn where
  "none_has_no_stdin = Exn ([39] @ ascii ''NoneType'' @ [39] @
     ascii '' object has no attribute '' @ [39] @ ascii ''stdin'' @ [39])"

text \<open>
  A call returns a value or raises, and leaves the globals and the child in a new
  state either way.
\<close>

type_synonym 'a result = "(exn + 'a) \<times> state"

text \<open>Lines 53-117: the body of the \<open>try\<close>. The pipe keeps what the loop did
  not read.\<close>

definition exec_body :: "pystr \<Rightarrow> state \<Rightarrow> pystr result" where
  "exec_body command st =
     (case gdb_process st of
        None \<Rightarrow> (Inl none_has_no_stdin, st)
      | Some c \<Rightarrow>
          (case stdin_fault c of
             Some e \<Rightarrow> (Inl e, st)
           | None \<Rightarrow>
               (let c1 = c\<lparr>stdin_log := stdin_log c @ [command @ [NL]]\<rparr>
                in case flush_fault c1 of
                     Some e \<Rightarrow> (Inl e, st\<lparr>gdb_process := Some c1\<rparr>)
                   | None \<Rightarrow>
                       (case exec_loop (out_end c1) ([], [], out_events c1, 0) of
                          (Inl e, (output_lines, buffer, evs, t)) \<Rightarrow>
                            (Inl e, st\<lparr>gdb_process := Some (c1\<lparr>out_events := evs\<rparr>)\<rparr>)
                        | (Inr r, (output_lines, buffer, evs, t)) \<Rightarrow>
                            (Inr (finish command output_lines buffer),
                             st\<lparr>gdb_process := Some (c1\<lparr>out_events := evs\<rparr>)\<rparr>)))))"

definition execute_safe_command :: "pystr \<Rightarrow> state \<Rightarrow> pystr result" where
  "execute_safe_command command st =
     (if \<not> is_connected st then (Inr msg_not_connected, st)
      else (case exec_body command st of
              (Inl e, st') \<Rightarrow> (Inr (msg_exec_failed e), st')
            | (Inr text, st') \<Rightarrow> (Inr text, st')))"

section \<open>The fixed operations\<close>

definition heap :: "state \<Rightarrow> pystr result" where
  "heap st = execute_safe_command (ascii ''heap'') st"

definition bins :: "state \<Rightarrow> pystr result" where
  "bins st = execute_safe_command (ascii ''bins'') st"

definition vis :: "state \<Rightarrow> pystr result" where
  "vis st = execute_safe_command (ascii ''vis_heap_chunks'') st"

definition msg_no_address :: pystr where
  "msg_no_address =
     ascii ''Error: '' @ [51452, 49548, 47484] @ ascii '' '' @
     [51077, 47141, 54644, 51452, 49464, 50836]"

definition malloc_chunk :: "pystr \<Rightarrow> state \<Rightarrow> pystr result" where
  "malloc_chunk address st =
     (if address = [] then (Inr msg_no_address, st)
      else execute_safe_command (ascii ''chunk '' @ address) st)"

definition checksec :: "state \<Rightarrow> pystr result" where
  "checksec st = execute_safe_command (ascii ''checksec'') st"

definition vmmap :: "state \<Rightarrow> pystr result" where
  "vmmap st = execute_safe_command (ascii ''vmmap'') st"

definition canary :: "state \<Rightarrow> pystr result" where
  "canary st = execute_safe_command (ascii ''canary'') st"

definition regs :: "state \<Rightarrow> pystr result" where
  "regs st = execute_safe_command (ascii ''registers'') st"

definition stack :: "state \<Rightarrow> pystr result" where
  "stack st = execute_safe_command (ascii ''stack'') st"

definition telescope :: "pystr \<Rightarrow> state \<Rightarrow> pystr result" where
  "telescope address st =
     (if address \<noteq> [] then execute_safe_command (ascii ''telescope '' @ address) st
      else execute_safe_command (ascii ''telescope'') st)"

definition context_tool :: "state \<Rightarrow> pystr result" where
  "context_tool st = execute_safe_command (ascii ''context'') st"

definition msg_no_pattern :: pystr where
  "msg_no_pattern =
     ascii ''Error: '' @ [44160, 49353, 54624] @ ascii '' '' @ [54056, 53556, 51012] @
     ascii '' '' @ [51077, 47141, 54644, 51452, 49464, 50836]"

definition search :: "pystr \<Rightarrow> state \<Rightarrow> pystr result" where
  "search pattern st =
     (if pattern = [] then (Inr msg_no_pattern, st)
      else execute_safe_command (ascii ''search '' @ pattern) st)"

definition find_tool :: "pystr \<Rightarrow> state \<Rightarrow> pystr result" where
  "find_tool pattern st =
     (if pattern = [] then (Inr msg_no_pattern, st)
      else execute_safe_command (ascii ''find '' @ pattern) st)"

definition got :: "state \<Rightarrow> pystr result" where
  "got st = execute_safe_command (ascii ''got'') st"

definition plt :: "state \<Rightarrow> pystr result" where
  "plt st = execute_safe_command (ascii ''plt'') st"

definition rop :: "state \<Rightarrow> pystr result" where
  "rop st = execute_safe_command (ascii ''rop'') st"

section \<open>\<open>execute_custom_command\<close>\<close>

text \<open>The set literal of lines 20-43, in the order it is written; no entry occurs twice.\<close>

definition ALLOWED_COMMANDS :: "pystr list" where
  "ALLOWED_COMMANDS = map ascii
     [''heap'', ''bins'', ''vis_heap_chunks'', ''heap chunks'', ''chunk'',
      ''fastbins'', ''smallbins'', ''largebins'', ''unsortedbin'', ''tcache'', ''arena'',
      ''checksec'', ''vmmap'', ''canary'', ''piebase'', ''procinfo'',
      ''registers'', ''regs'', ''stack'', ''telescope'', ''context'', ''hexdump'',
      ''search'', ''find'', ''got'', ''plt'', ''rop'', ''ropper'', ''strings'',
      ''disasm'', ''disassemble'', ''nearpc'', ''pdisass'',
      ''break'', ''continue'', ''step'', ''next'', ''finish'', ''run'',
      ''info'', ''print'', ''x'', ''examine'', ''backtrace'', ''bt'', ''frame'',
      ''set'', ''show'', ''list'', ''file'', ''load'']"

text \<open>The list of lines 363-368; the back quote is code point 96.\<close>

definition dangerous_patterns :: "pystr list" where
  "dangerous_patterns =
     map ascii [''rm'', ''del'', ''format'', ''mkfs'', ''dd if='', ''dd of='',
       ''sudo'', ''su'', ''chmod +x'', ''wget'', ''curl'', ''nc '', ''netcat'',
       ''python -c'', ''perl -e'', ''ruby -e'', ''bash -c'', ''sh -c'', ''$(''] @
     [[96]] @
     map ascii [''&&'', ''||'', '';'', ''|'', ''>'', ''>>'', ''<'']"

definition msg_empty_command :: pystr where
  "msg_empty_command =
     ascii ''Error: '' @ [47749, 47161, 50612, 47484] @ ascii '' '' @
     [51077, 47141, 54644, 51452, 49464, 50836]"

definition msg_blank_command :: pystr where
  "msg_blank_command =
     ascii ''Error: '' @ [50732, 48148, 47480] @ ascii '' '' @ [47749, 47161, 50612, 47484] @
     ascii '' '' @ [51077, 47141, 54644, 51452, 49464, 50836]"

text \<open>Line 360: the rejection of a base command that is not in \<open>ALLOWED_COMMANDS\<close>;
  it lists the allowed commands in sorted order.\<close>

definition msg_not_whitelisted :: pystr where
  "msg_not_whitelisted =
     ascii ''Error: '' @ [54728, 50857, 46104, 51648] @ ascii '' '' @ [50506, 51008] @
     ascii '' '' @ [47749, 47161, 50612, 51077, 45768, 45796] @ ascii ''. '' @ [49324, 50857] @
     ascii '' '' @ [44032, 45733, 54620] @ ascii '' '' @ [47749, 47161, 50612] @ ascii '': '' @
     str_join (ascii '', '') (sort ALLOWED_COMMANDS)"

text \<open>Line 372: the rejection that names the dangerous pattern found.\<close>

definition msg_dangerous_pattern :: "pystr \<Rightarrow> pystr" where
  "msg_dangerous_pattern pattern =
     ascii ''Error: '' @ [48372, 50504, 49345] @ ascii '' '' @ [50948, 54744, 54620] @
     ascii '' '' @ [54056, 53556, 51060] @ ascii '' '' @
     [44048, 51648, 46104, 50632, 49845, 45768, 45796] @ ascii '': '' @ pattern"

definition msg_too_long :: pystr where
  "msg_too_long =
     ascii ''Error: '' @ [47749, 47161, 50612, 44032] @ ascii '' '' @ [45320, 47924] @
     ascii '' '' @ [44609, 45768, 45796] @ ascii '' ('' @ [52572, 45824] @ ascii '' 200'' @
     [51088] @ ascii '')''"

definition msg_custom_done :: "pystr \<Rightarrow> pystr \<Rightarrow> pystr" where
  "msg_custom_done command result =
     [10003] @ ascii '' '' @ [49324, 50857, 51088] @ ascii '' '' @ [51221, 51032] @ ascii '' '' @
     [47749, 47161, 50612] @ ascii '' '' @ [49892, 54665, 46120] @ ascii '': '' @ command @
     [NL, NL] @ result"

definition msg_custom_failed :: "exn \<Rightarrow> pystr" where
  "msg_custom_failed e =
     [49324, 50857, 51088] @ ascii '' '' @ [51221, 51032] @ ascii '' '' @ [47749, 47161, 50612] @
     ascii '' '' @ [49892, 54665] @ ascii '' '' @ [49892, 54056] @ ascii '': '' @ exn_str e"

text \<open>
  Lines 346-383. \<open>ulower\<close> is the Unicode case mapping of the Python runtime (see
  \<open>str_lower\<close>). The patterns are tried in the order of the list and the first that
  occurs in the lower-cased command is named.
\<close>

definition execute_custom_command ::
    "(pystr \<Rightarrow> pystr) \<Rightarrow> pystr \<Rightarrow> state \<Rightarrow> pystr result" where
  "execute_custom_command ulower command st =
     (if command = [] then (Inr msg_empty_command, st)
      else (case str_split command of
              [] \<Rightarrow> (Inr msg_blank_command, st)
            | base_command # _ \<Rightarrow>
                (if base_command \<notin> set ALLOWED_COMMANDS then (Inr msg_not_whitelisted, st)
                 else (case find (\<lambda>pattern. str_contains pattern (str_lower ulower command))
                              dangerous_patterns of
                         Some pattern \<Rightarrow> (Inr (msg_dangerous_pattern pattern), st)
                       | None \<Rightarrow>
                           (if length command > 200 then (Inr msg_too_long, st)
                            else (case execute_safe_command command st of
                                    (Inl e, st') \<Rightarrow> (Inr (msg_custom_failed e), st')
                                  | (Inr result, st') \<Rightarrow>
                                      (Inr (msg_custom_done command result), st')))))))"

section \<open>Session control\<close>

text \<open>
  What the operations ask of the operating system and the Python runtime, none of it
  code of the repository: \<open>os.path.exists\<close>; \<open>subprocess.Popen\<close> on an argument vector
  (the child it starts, or the exception it raises); the return code of
  \<open>which gdb\<close>; whether one of the three pwndbg paths exists (each of these two may
  raise); and the Unicode case mapping of \<open>str.lower\<close>.
\<close>

record env =
  path_exists :: "pystr \<Rightarrow> bool"
  popen :: "pystr list \<Rightarrow> exn + child"
  which_gdb :: "exn + int"
  pwndbg_found :: "exn + bool"
  unicode_lower :: "pystr \<Rightarrow> pystr"

definition msg_no_gdb :: pystr where
  "msg_no_gdb =
     ascii ''Error: GDB'' @ [44032] @ ascii '' '' @ [49444, 52824, 46104, 51648] @ ascii '' '' @
     [50506, 51020]"

definition msg_no_pwndbg :: pystr where
  "msg_no_pwndbg =
     ascii ''Warning: pwndbg'' @ [44032] @ ascii '' '' @ [49444, 52824, 46104, 51648] @
     ascii '' '' @ [50506, 50520, 51012] @ ascii '' '' @ [49688] @ ascii '' '' @ [51080, 51020]"

definition msg_session_active :: pystr where
  "msg_session_active =
     [10003] @ ascii '' pwndbg MCP '' @ [49436, 48260] @ ascii '' '' @ [50672, 44208, 46120] @
     ascii '' (GDB '' @ [49464, 49496] @ ascii '' '' @ [54876, 49457] @ ascii '')''"

definition msg_session_inactive :: pystr where
  "msg_session_inactive =
     [10003] @ ascii '' pwndbg '' @ [49324, 50857] @ ascii '' '' @ [44032, 45733] @
     ascii '' (GDB '' @ [49464, 49496] @ ascii '' '' @ [48708, 54876, 49457] @ ascii '')''"

definition msg_error :: "exn \<Rightarrow> pystr" where
  "msg_error e = ascii ''Error: '' @ exn_str e"

text \<open>Lines 123-146.\<close>

definition check_pwndbg_connection :: "env \<Rightarrow> state \<Rightarrow> pystr result" where
  "check_pwndbg_connection env st =
     (case which_gdb env of
        Inl e \<Rightarrow> (Inr (msg_error e), st)
      | Inr rc \<Rightarrow>
          (if rc \<noteq> 0 then (Inr msg_no_gdb, st)
           else (case pwndbg_found env of
                   Inl e \<Rightarrow> (Inr (msg_error e), st)
                 | Inr found \<Rightarrow>
                     (if \<not> found then (Inr msg_no_pwndbg, st)
                      else if is_connected st then (Inr msg_session_active, st)
                      else (Inr msg_session_inactive, st)))))"

definition msg_already_active :: pystr where
  "msg_already_active =
     [51060, 48120] @ ascii '' GDB '' @ [49464, 49496, 51060] @ ascii '' '' @
     [54876, 49457, 54868, 46104, 50612] @ ascii '' '' @ [51080, 49845, 45768, 45796] @
     ascii ''. stop_debug_session()'' @ [51012] @ ascii '' '' @ [47676, 51200] @ ascii '' '' @
     [49892, 54665, 54616, 49464, 50836] @ ascii ''.''"

definition msg_binary_not_found :: "pystr \<Rightarrow> pystr" where
  "msg_binary_not_found binary_path =
     ascii ''Error: '' @ [48148, 51060, 45320, 47532] @ ascii '' '' @ [54028, 51068, 51012] @
     ascii '' '' @ [52286, 51012] @ ascii '' '' @ [49688] @ ascii '' '' @
     [50630, 49845, 45768, 45796] @ ascii '': '' @ binary_path"

definition msg_started :: "pystr \<Rightarrow> pystr" where
  "msg_started binary_path =
     (if binary_path \<noteq> [] then
        [10003] @ ascii '' GDB '' @ [49464, 49496] @ ascii '' '' @ [49884, 51089, 46120] @
        ascii '' ('' @ [48148, 51060, 45320, 47532] @ ascii '': '' @ binary_path @ ascii '')''
      else
        [10003] @ ascii '' GDB '' @ [49464, 49496] @ ascii '' '' @ [49884, 51089, 46120] @
        ascii '' ('' @ [48148, 51060, 45320, 47532] @ ascii '' '' @ [50630, 51020] @ ascii '')'')"

definition msg_process_died :: pystr where
  "msg_process_died =
     ascii ''Error: GDB '' @ [54532, 47196, 49464, 49828, 44032] @ ascii '' '' @
     [50696, 44592, 52824] @ ascii '' '' @ [50506, 44172] @ ascii '' '' @
     [51333, 47308, 46104, 50632, 49845, 45768, 45796] @ ascii ''.''"

definition msg_start_failed :: "exn \<Rightarrow> pystr" where
  "msg_start_failed e =
     ascii ''GDB '' @ [49464, 49496] @ ascii '' '' @ [49884, 51089] @ ascii '' '' @
     [49892, 54056] @ ascii '': '' @ exn_str e"

text \<open>Lines 160-171: the argument vector of the child.\<close>

definition gdb_cmd :: "pystr \<Rightarrow> pystr list" where
  "gdb_cmd binary_path =
     [ascii ''gdb'', ascii ''-q''] @ (if binary_path \<noteq> [] then [binary_path] else []) @
     [ascii ''-ex'', ascii ''set confirm off'', ascii ''-ex'', ascii ''set pagination off'']"

text \<open>Lines 190-203: the loop that reads the start-up banner up to the first prompt.
  Its variables are \<open>buffer\<close>, the pending events and the clock.\<close>

type_synonym banner_state = "pystr \<times> event list \<times> nat"

definition banner_step :: "tail \<Rightarrow> banner_state \<Rightarrow> banner_state step" where
  "banner_step eos s =
     (case s of (buffer, evs, t) \<Rightarrow>
        (case select eos evs 100 t of
           (Inl e, evs1, t1) \<Rightarrow> Raised e (buffer, evs1, t1)
         | (Inr True, evs1, t1) \<Rightarrow>
             (case read1 evs1 of
                ([], evs2) \<Rightarrow> Break EndOfStream (buffer, evs2, t1)
              | (char # _, evs2) \<Rightarrow>
                  (if str_endswith (buffer @ [char]) PROMPT
                   then Break PromptBuffer (buffer @ [char], evs2, t1)
                   else Continue (buffer @ [char], evs2, t1)))
         | (Inr False, evs1, t1) \<Rightarrow> Continue (buffer, evs1, t1 + 100)))"

lemma banner_step_decreases:
  assumes "banner_step eos (buf, evs, t) = Continue (buf', evs', t')" and "t < 5000"
  shows "(5000 - t') + pending evs' < (5000 - t) + pending evs"
proof -
  obtain r evs1 t1 where sel: "select eos evs 100 t = (r, evs1, t1)"
    by (cases "select eos evs 100 t")
  note b1 = select_bounds [OF sel]
  show ?thesis
  proof (cases r)
    case (Inl e)
    with assms sel show ?thesis
      by (simp add: banner_step_def)
  next
    case (Inr ready)
    show ?thesis
    proof (cases ready)
      case True
      obtain cs evs2 where rd: "read1 evs1 = (cs, evs2)"
        by (cases "read1 evs1")
      with assms sel Inr True obtain c cs' where cs: "cs = c # cs'"
        by (cases cs) (auto simp: banner_step_def)
      have "pending evs2 < pending evs1"
        using rd cs by (auto dest: read1_decreases)
      moreover have "evs' = evs2" and "t' = t1"
        using assms sel Inr True rd cs
        by (auto simp: banner_step_def split: if_splits)
      ultimately show ?thesis
        using b1 assms(2) by auto
    next
      case False
      with b1 Inr have "t1 = t + 100"
        by simp
      moreover have "evs' = evs1" and "t' = t1 + 100"
        using assms sel Inr False by (auto simp: banner_step_def)
      ultimately show ?thesis
        using b1 assms(2) by auto
    qed
  qed
qed

function banner_loop :: "tail \<Rightarrow> banner_state \<Rightarrow> (exn + exit_reason) \<times> banner_state" where
  "banner_loop eos (buf, evs, t) =
     (if t < 5000 then
        (case banner_step eos (buf, evs, t) of
           Continue s' \<Rightarrow> banner_loop eos s'
         | Break r s' \<Rightarrow> (Inr r, s')
         | Raised e s' \<Rightarrow> (Inl e, s'))
      else (Inr Deadline, (buf, evs, t)))"
  by pat_completeness auto
termination
proof (relation "measure (\<lambda>(eos, buf, evs, t). (5000 - t) + pending evs)")
  show "wf (measure (\<lambda>(eos, buf, evs, t). (5000 - t) + pending evs))"
    by simp
next
  fix eos :: tail and buf evs t s'
  assume "t < 5000" and "banner_step eos (buf, evs, t) = Continue s'"
  then show "((eos, s'), eos, buf, evs, t)
      \<in> measure (\<lambda>(eos, buf, evs, t). (5000 - t) + pending evs)"
    using banner_step_decreases [of eos buf evs t] by (cases s') auto
qed

text \<open>
  Lines 149-217. An exception of \<open>Popen\<close> or of the banner loop reaches the handler
  of line 214, which resets both globals. A spawned child is logged.
\<close>

definition start_debug_session :: "env \<Rightarrow> pystr \<Rightarrow> state \<Rightarrow> pystr result" where
  "start_debug_session env binary_path st =
     (if is_connected st then (Inr msg_already_active, st)
      else if binary_path \<noteq> [] \<and> \<not> path_exists env binary_path
      then (Inr (msg_binary_not_found binary_path), st)
      else
        (case popen env (gdb_cmd binary_path) of
           Inl e \<Rightarrow>
             (Inr (msg_start_failed e), st\<lparr>gdb_process := None, is_connected := False\<rparr>)
         | Inr c \<Rightarrow>
             (let st1 = st\<lparr>gdb_process := Some c,
                           os_log := os_log st @ [Spawn (gdb_cmd binary_path)]\<rparr>
              in case banner_loop (out_end c) ([], out_events c, 0) of
                   (Inl e, s') \<Rightarrow>
                     (Inr (msg_start_failed e),
                      st1\<lparr>gdb_process := None, is_connected := False\<rparr>)
                 | (Inr r, (buffer, evs, t)) \<Rightarrow>
                     (case returncode c of
                        Some rc \<Rightarrow>
                          (Inr msg_process_died,
                           st1\<lparr>gdb_process := None, is_connected := False\<rparr>)
                      | None \<Rightarrow>
                          (Inr (msg_started binary_path),
                           st1\<lparr>gdb_process := Some (c\<lparr>out_events := evs\<rparr>),
                               is_connected := True\<rparr>)))))"

definition msg_not_active :: pystr where
  "msg_not_active =
     ascii ''GDB '' @ [49464, 49496, 51060] @ ascii '' '' @ [54876, 49457, 54868, 46104, 50612] @
     ascii '' '' @ [51080, 51648] @ ascii '' '' @ [50506, 49845, 45768, 45796] @ ascii ''.''"

definition msg_stopped :: pystr where
  "msg_stopped =
     [10003] @ ascii '' GDB '' @ [49464, 49496, 51060] @ ascii '' '' @
     [51333, 47308, 46104, 50632, 49845, 45768, 45796] @ ascii ''.''"

definition msg_stop_failed :: "exn \<Rightarrow> pystr" where
  "msg_stop_failed e =
     ascii ''GDB '' @ [49464, 49496] @ ascii '' '' @ [51333, 47308] @ ascii '' '' @
     [49892, 54056] @ ascii '': '' @ exn_str e"

text \<open>
  Lines 220-234. \<open>terminate()\<close> is called when there is a handle; when it raises,
  the two assignments after it are skipped and the handler of line 233 returns.
\<close>

definition stop_debug_session :: "state \<Rightarrow> pystr result" where
  "stop_debug_session st =
     (if \<not> is_connected st then (Inr msg_not_active, st)
      else (case gdb_process st of
              None \<Rightarrow> (Inr msg_stopped, st\<lparr>gdb_process := None, is_connected := False\<rparr>)
            | Some c \<Rightarrow>
                (case terminate_fault c of
                   Some e \<Rightarrow> (Inr (msg_stop_failed e), st)
                 | None \<Rightarrow>
                     (Inr msg_stopped,
                      st\<lparr>gdb_process := None, is_connected := False,
                         os_log := os_log st @ [Terminate]\<rparr>))))"

section \<open>\<open>list_available_commands\<close>\<close>

text \<open>The dictionary of lines 388-396, in insertion order.\<close>

definition commands_by_category :: "(pystr \<times> pystr list) list" where
  "commands_by_category =
     [([55193] @ ascii '' '' @ [48516, 49437],
       map ascii [''heap'', ''bins'', ''vis_heap_chunks'', ''chunk'', ''fastbins'',
         ''smallbins'', ''largebin'', ''unsortedbin'', ''tcache'', ''arena'']),
      ([48372, 50504] @ ascii '' '' @ [48516, 49437],
       map ascii [''checksec'', ''vmmap'', ''canary'', ''piebase'', ''procinfo'']),
      ([47112, 51648, 49828, 53552] @ ascii ''/'' @ [47700, 47784, 47532],
       map ascii [''registers'', ''regs'', ''stack'', ''telescope'', ''context'', ''hexdump'']),
      ([44160, 49353] @ ascii ''/'' @ [48516, 49437],
       map ascii [''search'', ''find'', ''got'', ''plt'', ''rop'', ''ropper'', ''strings'']),
      ([46356, 49828, 50612, 49480, 48660, 47532],
       map ascii [''disasm'', ''disassemble'', ''nearpc'', ''pdisass'']),
      ([49892, 54665] @ ascii '' '' @ [51228, 50612],
       map ascii [''break'', ''continue'', ''step'', ''next'', ''finish'', ''run'']),
      ([44592, 48376] @ ascii '' GDB'',
       map ascii [''info'', ''print'', ''x'', ''examine'', ''backtrace'', ''bt'', ''frame'',
         ''set'', ''show'', ''list'', ''file'', ''load''])]"

text \<open>Lines 400-404: what one category adds to \<open>result\<close>.\<close>

definition category_text :: "pystr \<times> pystr list \<Rightarrow> pystr" where
  "category_text entry =
     (case entry of (category, commands) \<Rightarrow>
        [128203] @ ascii '' '' @ category @ ascii '':'' @ [NL] @
        concat (map (\<lambda>cmd. ascii ''  '' @ [8226] @ ascii '' '' @ cmd @ [NL]) commands) @
        [NL])"

definition list_available_commands :: "state \<Rightarrow> pystr result" where
  "list_available_commands st =
     (Inr (ascii ''=== '' @ [49324, 50857] @ ascii '' '' @ [44032, 45733, 54620] @
           ascii '' pwndbg '' @ [47749, 47161, 50612] @ ascii '' '' @ [47785, 47197] @
           ascii '' ==='' @ [NL, NL] @
           concat (map category_text commands_by_category) @
           [9888, 65039] @ ascii '' '' @ [52280, 44256] @
           ascii '': execute_custom_command() '' @ [53812, 51012] @ ascii '' '' @
           [49324, 50857, 54616, 50668] @ ascii '' '' @ [50948] @ ascii '' '' @
           [47749, 47161, 50612, 46308, 51012] @ ascii '' '' @ [51649, 51217] @ ascii '' '' @
           [49892, 54665, 54624] @ ascii '' '' @ [49688] @ ascii '' '' @
           [51080, 49845, 45768, 45796] @ ascii ''.'' @ [NL] @
           [54616, 51648, 47564] @ ascii '' '' @ [44033] @ ascii '' '' @
           [44592, 45733, 48324, 47196] @ ascii '' '' @ [51204, 50857] @ ascii '' '' @
           [53812, 51012] @ ascii '' '' @ [49324, 50857, 54616, 45716] @ ascii '' '' @
           [44163, 51012] @ ascii '' '' @ [44428, 51109, 54633, 45768, 45796] @ ascii ''.''),
      st)"

section \<open>The operations a caller can invoke\<close>

text \<open>One constructor for every function that \<open>server.py\<close> registers with
  \<open>@mcp.tool()\<close>, with its string arguments.\<close>

datatype tool_call =
    Check_pwndbg_connection
  | Start_debug_session pystr
  | Stop_debug_session
  | Heap
  | Bins
  | Vis
  | Malloc_chunk pystr
  | Checksec
  | Vmmap
  | Canary
  | Regs
  | Stack
  | Telescope pystr
  | Context
  | Search pystr
  | Find pystr
  | Got
  | Plt
  | Rop
  | Execute_custom_command pystr
  | List_available_commands

fun call_tool :: "env \<Rightarrow> tool_call \<Rightarrow> state \<Rightarrow> pystr result" where
  "call_tool env Check_pwndbg_connection st = check_pwndbg_connection env st"
| "call_tool env (Start_debug_session binary_path) st = start_debug_session env binary_path st"
| "call_tool env Stop_debug_session st = stop_debug_session st"
| "call_tool env Heap st = heap st"
| "call_tool env Bins st = bins st"
| "call_tool env Vis st = vis st"
| "call_tool env (Malloc_chunk address) st = malloc_chunk address st"
| "call_tool env Checksec st = checksec st"
| "call_tool env Vmmap st = vmmap st"
| "call_tool env Canary st = canary st"
| "call_tool env Regs st = regs st"
| "call_tool env Stack st = stack st"
| "call_tool env (Telescope address) st = telescope address st"
| "call_tool env Context st = context_tool st"
| "call_tool env (Search pattern) st = search pattern st"
| "call_tool env (Find pattern) st = find_tool pattern st"
| "call_tool env Got st = got st"
| "call_tool env Plt st = plt st"
| "call_tool env Rop st = rop st"
| "call_tool env (Execute_custom_command command) st =
     execute_custom_command (unicode_lower env) command st"
| "call_tool env List_available_commands st = list_available_commands st"

section \<open>Sessions and child outputs used as concrete inputs\<close>

text \<open>A child that has written nothing, that no fault affects and that is running.\<close>

definition idle_child :: child where
  "idle_child =
     \<lparr>stdin_log = [], stdin_fault = None, flush_fault = None, out_events = [],
      out_end = Silent, terminate_fault = None, returncode = None\<rparr>"

text \<open>The globals after a successful start, with the given child.\<close>

definition session_of :: "child \<Rightarrow> state" where
  "session_of c = \<lparr>gdb_process = Some c, is_connected = True, os_log = []\<rparr>"

text \<open>The globals before any start.\<close>

definition no_session :: state where
  "no_session = \<lparr>gdb_process = None, is_connected = False, os_log = []\<rparr>"

text \<open>The output of a child that prints the given lines, each with its line
  terminator, one character per write: every character arrives on its own, and
  every poll before the last character finds the pipe readable.\<close>

definition emits :: "pystr list \<Rightarrow> event list" where
  "emits lines = map Chr (concat (map (\<lambda>l. l @ [NL]) lines))"

text \<open>An operating system in which every path exists and every spawn gives an idle
  child.\<close>

definition plain_env :: env where
  "plain_env =
     \<lparr>path_exists = (\<lambda>p. True), popen = (\<lambda>argv. Inr idle_child), which_gdb = Inr 0,
      pwndbg_found = Inr True, unicode_lower = id\<rparr>"

text \<open>What the child of the current handle has received on its standard input.\<close>

definition written :: "state \<Rightarrow> pystr list option" where
  "written st = map_option stdin_log (gdb_process st)"

text \<open>The output \<open>foo\<close>, \<open>result-line\<close> and the prompt followed by a space.\<close>

definition framing_text :: pystr where
  "framing_text = ascii ''foo\<newline>result-line\<newline>pwndbg> ''"


text \<open>\<open>n\<close> distinct non-empty lines: \<open>x\<close>, \<open>xx\<close>, \<open>xxx\<close> and so on.\<close>

definition x_lines :: "nat \<Rightarrow> pystr list" where
  "x_lines n = map (\<lambda>i. replicate (Suc i) 120) [0..<n]"

section \<open>Unfolding the read loop\<close>

declare exec_loop.simps [simp del]


lemma exec_loop_Chr:
  "t < 5000 \<Longrightarrow>
   exec_loop eos (ls, buf, Chr c # evs, t) =
     (case on_char c ls buf of
        (Some r, ls', buf') \<Rightarrow> (Inr r, (ls', buf', evs, t))
      | (None, ls', buf') \<Rightarrow> exec_loop eos (ls', buf', evs, t))"
  by (subst exec_loop.simps)
    (simp add: exec_step_def split: prod.splits option.splits)

lemma exec_loop_Fault:
  "t < 5000 \<Longrightarrow> exec_loop eos (ls, buf, Fault e # evs, t) = (Inl e, (ls, buf, evs, t))"
  by (subst exec_loop.simps) (simp add: exec_step_def)

lemma exec_loop_Closed:
  "t < 5000 \<Longrightarrow> exec_loop Closed (ls, buf, [], t) = (Inr EndOfStream, (ls, buf, [], t))"
  by (subst exec_loop.simps) (simp add: exec_step_def)


lemma exec_loop_Silent_waiting:
  "t < 5000 \<Longrightarrow> ls = [] \<or> buf \<noteq> [] \<Longrightarrow>
   exec_loop Silent (ls, buf, [], t) = exec_loop Silent (ls, buf, [], t + 200)"
  by (subst exec_loop.simps) (auto simp: exec_step_def add.commute)


text \<open>A read that takes a chunk out of the pipe, and the reads that follow it: the
  stream holds the rest of the chunk, which only a readable pipe lets the loop reach.\<close>

lemma exec_loop_Chunk:
  "t < 5000 \<Longrightarrow>
   exec_loop eos (ls, buf, Chunk (c # s) # evs, t) =
     (case on_char c ls buf of
        (Some r, ls', buf') \<Rightarrow> (Inr r, (ls', buf', (if s = [] then evs else Held s # evs), t))
      | (None, ls', buf') \<Rightarrow>
          exec_loop eos (ls', buf', (if s = [] then evs else Held s # evs), t))"
  by (subst exec_loop.simps)
    (simp add: exec_step_def split: prod.splits option.splits)

lemma exec_loop_Held_Closed:
  "t < 5000 \<Longrightarrow>
   exec_loop Closed (ls, buf, [Held (c # s)], t) =
     (case on_char c ls buf of
        (Some r, ls', buf') \<Rightarrow> (Inr r, (ls', buf', (if s = [] then [] else [Held s]), t))
      | (None, ls', buf') \<Rightarrow>
          exec_loop Closed (ls', buf', (if s = [] then [] else [Held s]), t))"
  by (subst exec_loop.simps)
    (simp add: exec_step_def split: prod.splits option.splits)




text \<open>The definitions that evaluate \<open>on_char\<close> and \<open>finish\<close> on concrete strings.\<close>

lemmas str_eval = Let_def NL_def CR_def str_endswith_def PROMPT_def str_strip_def
  str_rstrip_def str_lstrip_def str_rstrip_chars_def isspace_def ascii_def

lemmas on_char_eval = on_char_def limit_check_def str_eval

section \<open>Strings: suffixes and substrings\<close>

lemma str_endswith_suffix: "str_endswith s p \<longleftrightarrow> suffix p s"
proof
  assume "str_endswith s p"
  then have "s = take (length s - length p) s @ p"
    by (metis append_take_drop_id str_endswith_def)
  then show "suffix p s"
    by (metis suffixI)
next
  assume "suffix p s"
  then obtain zs where "s = zs @ p"
    by (auto simp: suffix_def)
  then show "str_endswith s p"
    by (simp add: str_endswith_def)
qed


text \<open>A string in which \<open>p\<close> does not occur has no prefix that ends with \<open>p\<close>.\<close>

lemma no_prompt_prefix:
  assumes "\<not> sublist p (b @ r)"
  shows "\<not> str_endswith (b @ take k r) p"
proof
  assume "str_endswith (b @ take k r) p"
  then obtain zs where "b @ take k r = zs @ p"
    by (auto simp: str_endswith_suffix suffix_def)
  then have "b @ r = zs @ p @ drop k r"
    by (metis append.assoc append_take_drop_id)
  with assms show False
    by (auto simp: sublist_def)
qed

lemma str_rstrip_chars_take:
  "str_rstrip_chars cs s = take (length s - length (takeWhile (\<lambda>c. c \<in> set cs) (rev s))) s"
  by (simp add: str_rstrip_chars_def dropWhile_eq_drop drop_rev)

lemma str_rstrip_chars_snoc:
  "c \<in> set cs \<Longrightarrow> str_rstrip_chars cs (s @ [c]) = str_rstrip_chars cs s"
  by (simp add: str_rstrip_chars_def)

lemma PROMPT_nonempty: "PROMPT \<noteq> []"
  by (simp add: PROMPT_def ascii_def)

lemma rstripped_no_prompt:
  assumes "\<not> sublist PROMPT b"
  shows "\<not> str_endswith (str_rstrip_chars cs b) PROMPT"
  using no_prompt_prefix [of PROMPT "[]" b] assms
  by (simp add: str_rstrip_chars_take)

section \<open>Reading one line\<close>

text \<open>
  A line in which neither a line feed nor the prompt occurs is read up to its
  terminator without leaving the loop; what remains is the output limit, checked on
  the lines collected so far and the line just read.
\<close>

lemma exec_loop_line:
  assumes "t < 5000" and "length ls \<le> 200" and "NL \<notin> set r" and "\<not> sublist PROMPT (b @ r)"
  shows "exec_loop eos (ls, b, map Chr r @ Chr NL # rest, t) =
     (case limit_check
             (if str_rstrip_chars [NL, CR] (b @ r) \<noteq> []
              then ls @ [str_rstrip_chars [NL, CR] (b @ r)] else ls) [] of
        (Some x, ls', buf') \<Rightarrow> (Inr x, (ls', buf', rest, t))
      | (None, ls', buf') \<Rightarrow> exec_loop eos (ls', buf', rest, t))"
  using assms
proof (induction r arbitrary: b)
  case Nil
  then have "\<not> str_endswith (str_rstrip_chars [NL, CR] b) PROMPT"
    by (simp add: rstripped_no_prompt)
  with Nil show ?case
    by (simp add: exec_loop_Chr on_char_def Let_def str_rstrip_chars_snoc)
next
  case (Cons c r)
  have "\<not> str_endswith (b @ take 1 (c # r)) PROMPT"
    using Cons.prems(4) by (rule no_prompt_prefix)
  then have np: "\<not> str_endswith (b @ [c]) PROMPT"
    by simp
  have "exec_loop eos (ls, b, Chr c # map Chr r @ Chr NL # rest, t) =
      exec_loop eos (ls, b @ [c], map Chr r @ Chr NL # rest, t)"
    using Cons.prems np by (simp add: exec_loop_Chr on_char_def Let_def limit_check_def)
  also have "\<dots> =
     (case limit_check
             (if str_rstrip_chars [NL, CR] ((b @ [c]) @ r) \<noteq> []
              then ls @ [str_rstrip_chars [NL, CR] ((b @ [c]) @ r)] else ls) [] of
        (Some x, ls', buf') \<Rightarrow> (Inr x, (ls', buf', rest, t))
      | (None, ls', buf') \<Rightarrow> exec_loop eos (ls', buf', rest, t))"
    using Cons.prems by (intro Cons.IH) simp_all
  finally show ?case
    by simp
qed

section \<open>\<open>_execute_safe_command\<close> around the loop\<close>

lemma execute_safe_command_ready:
  assumes "is_connected st" and "gdb_process st = Some c" and "stdin_fault c = None"
    and "flush_fault c = None"
    and "exec_loop (out_end c) ([], [], out_events c, 0) = (Inr r, (ls, buf, evs, t))"
  shows "execute_safe_command command st =
     (Inr (finish command ls buf),
      st\<lparr>gdb_process := Some (c\<lparr>stdin_log := stdin_log c @ [command @ [NL]],
                                  out_events := evs\<rparr>)\<rparr>)"
  using assms by (simp add: execute_safe_command_def exec_body_def Let_def)

lemma execute_safe_command_writes:
  assumes "is_connected st" and "gdb_process st = Some c" and "stdin_fault c = None"
  shows "written (snd (execute_safe_command command st)) = Some (stdin_log c @ [command @ [NL]])"
  using assms
  by (auto simp: execute_safe_command_def exec_body_def written_def Let_def
      split: prod.splits sum.splits option.splits)

lemma write_fault_caught:
  assumes "is_connected st" and "gdb_process st = Some c" and "stdin_fault c = Some e"
  shows "execute_safe_command command st = (Inr (msg_exec_failed e), st)"
  using assms by (simp add: execute_safe_command_def exec_body_def)

lemma flush_fault_caught:
  assumes "is_connected st" and "gdb_process st = Some c" and "stdin_fault c = None"
    and "flush_fault c = Some e"
  shows "fst (execute_safe_command command st) = Inr (msg_exec_failed e)"
  using assms by (simp add: execute_safe_command_def exec_body_def Let_def)

lemma read_fault_caught:
  assumes "is_connected st" and "gdb_process st = Some c" and "stdin_fault c = None"
    and "flush_fault c = None"
    and "exec_loop (out_end c) ([], [], out_events c, 0) = (Inl e, s')"
  shows "fst (execute_safe_command command st) = Inr (msg_exec_failed e)"
  using assms by (simp add: execute_safe_command_def exec_body_def Let_def split: prod.splits)

section \<open>No operation raises\<close>

lemma execute_safe_command_returns:
  "\<exists>text. fst (execute_safe_command command st) = Inr text"
  by (auto simp: execute_safe_command_def split: prod.splits sum.splits)

lemma execute_custom_command_returns:
  "\<exists>text. fst (execute_custom_command ulower command st) = Inr text"
  by (auto simp: execute_custom_command_def
      split: prod.splits sum.splits list.splits option.splits)

lemma start_debug_session_returns:
  "\<exists>text. fst (start_debug_session env binary_path st) = Inr text"
  by (auto simp: start_debug_session_def Let_def split: prod.splits sum.splits option.splits)

lemma stop_debug_session_returns:
  "\<exists>text. fst (stop_debug_session st) = Inr text"
  by (auto simp: stop_debug_session_def split: option.splits)

lemma check_pwndbg_connection_returns:
  "\<exists>text. fst (check_pwndbg_connection env st) = Inr text"
  by (auto simp: check_pwndbg_connection_def split: sum.splits)

lemma call_tool_returns: "\<exists>text. fst (call_tool env tc st) = Inr text"
proof (cases tc)
  case Check_pwndbg_connection
  then show ?thesis by (simp add: check_pwndbg_connection_returns)
next
  case (Start_debug_session binary_path)
  then show ?thesis by (simp add: start_debug_session_returns)
next
  case Stop_debug_session
  then show ?thesis by (simp add: stop_debug_session_returns)
next
  case (Malloc_chunk address)
  then show ?thesis by (simp add: malloc_chunk_def execute_safe_command_returns)
next
  case (Telescope address)
  then show ?thesis by (simp add: telescope_def execute_safe_command_returns)
next
  case (Search pattern)
  then show ?thesis by (simp add: search_def execute_safe_command_returns)
next
  case (Find pattern)
  then show ?thesis by (simp add: find_tool_def execute_safe_command_returns)
next
  case (Execute_custom_command command)
  then show ?thesis by (simp add: execute_custom_command_returns)
next
  case List_available_commands
  then show ?thesis by (simp add: list_available_commands_def)
qed (simp_all add: heap_def bins_def vis_def checksec_def vmmap_def canary_def regs_def
    stack_def context_tool_def got_def plt_def rop_def execute_safe_command_returns)

section \<open>Whitespace\<close>

lemma str_strip_empty_iff: "str_strip s = [] \<longleftrightarrow> list_all isspace s"
proof
  assume "str_strip s = []"
  then have all: "\<forall>c \<in> set (dropWhile isspace (rev s)). isspace c"
    by (simp add: str_strip_def str_lstrip_def str_rstrip_def)
  have "dropWhile isspace (rev s) = []"
  proof (rule ccontr)
    assume ne: "dropWhile isspace (rev s) \<noteq> []"
    then have "\<not> isspace (hd (dropWhile isspace (rev s)))"
      by (rule hd_dropWhile)
    moreover have "hd (dropWhile isspace (rev s)) \<in> set (dropWhile isspace (rev s))"
      using ne by simp
    ultimately show False
      using all by blast
  qed
  then show "list_all isspace s"
    by (simp add: list_all_iff)
next
  assume "list_all isspace s"
  then show "str_strip s = []"
    by (auto simp: str_strip_def str_lstrip_def str_rstrip_def list_all_iff
        dest: set_dropWhileD)
qed




lemma set_str_join: "l \<in> set ls \<Longrightarrow> set l \<subseteq> set (str_join sep ls)"
  by (induction sep ls rule: str_join.induct) auto

text \<open>Joining lines that hold no line feed gives one line feed less than lines.\<close>

lemma count_str_join:
  "ls \<noteq> [] \<Longrightarrow> \<forall>l\<in>set ls. NL \<notin> set l \<Longrightarrow>
   length (filter (\<lambda>c. c = NL) (str_join [NL] ls)) + 1 = length ls"
proof (induction "[NL]" ls rule: str_join.induct)
  case 1
  then show ?case by simp
next
  case (2 x)
  then have "filter (\<lambda>c. c = NL) x = []"
    by (auto simp: filter_empty_conv)
  then show ?case by simp
next
  case (3 x y ys)
  then have "filter (\<lambda>c. c = NL) x = []"
    by (auto simp: filter_empty_conv)
  with 3 show ?case by simp
qed

section \<open>One line, then silence\<close>



lemma emits_Cons: "emits (l # lines) = map Chr l @ Chr NL # emits lines"
  by (simp add: emits_def)

lemma emits_append: "emits (xs @ ys) = emits xs @ emits ys"
  by (simp add: emits_def)



section \<open>Many lines\<close>

lemma exec_loop_lines:
  assumes "t < 5000"
    and "\<forall>l\<in>set lines.
           NL \<notin> set l \<and> \<not> sublist PROMPT l \<and> str_rstrip_chars [NL, CR] l \<noteq> []"
    and "length ls + length lines \<le> 200"
  shows "exec_loop eos (ls, [], emits lines @ rest, t) =
     exec_loop eos (ls @ map (str_rstrip_chars [NL, CR]) lines, [], rest, t)"
  using assms
proof (induction lines arbitrary: ls)
  case Nil
  then show ?case by (simp add: emits_def)
next
  case (Cons l lines)
  have "exec_loop eos (ls, [], map Chr l @ Chr NL # (emits lines @ rest), t) =
      exec_loop eos (ls @ [str_rstrip_chars [NL, CR] l], [], emits lines @ rest, t)"
    using exec_loop_line [of t ls l "[]" eos "emits lines @ rest"] Cons.prems
    by (simp add: limit_check_def)
  also have "\<dots> = exec_loop eos
      ((ls @ [str_rstrip_chars [NL, CR] l]) @ map (str_rstrip_chars [NL, CR]) lines, [],
       rest, t)"
    using Cons.prems by (intro Cons.IH) simp_all
  finally show ?case
    by (simp add: emits_Cons)
qed

text \<open>The line that makes 201: the test \<open>len(output_lines) > 200\<close> holds for the first
  time after it was appended.\<close>

lemma exec_loop_overflow:
  assumes "t < 5000" and "length ls = 200" and "NL \<notin> set l" and "\<not> sublist PROMPT l"
    and "str_rstrip_chars [NL, CR] l \<noteq> []"
  shows "exec_loop eos (ls, [], map Chr l @ Chr NL # rest, t) =
     (Inr OutputLimit,
      (ls @ [str_rstrip_chars [NL, CR] l, TRUNCATION_MARKER], [], rest, t))"
  using exec_loop_line [of t ls l "[]" eos rest] assms
  by (simp add: limit_check_def)

lemma exec_loop_flood:
  assumes "\<forall>l\<in>set lines.
             NL \<notin> set l \<and> \<not> sublist PROMPT l \<and> str_rstrip_chars [NL, CR] l \<noteq> []"
    and "201 \<le> length lines"
  shows "exec_loop eos ([], [], emits lines, 0) =
     (Inr OutputLimit,
      (map (str_rstrip_chars [NL, CR]) (take 201 lines) @ [TRUNCATION_MARKER], [],
       emits (drop 201 lines), 0))"
proof -
  have s201: "Suc 200 = (201::nat)"
    by simp
  have lt: "200 < length lines"
    using assms(2) by simp
  have split: "lines = take 200 lines @ lines ! 200 # drop 201 lines"
    using id_take_nth_drop [OF lt] unfolding s201 .
  have take201: "take 201 lines = take 200 lines @ [lines ! 200]"
    using take_Suc_conv_app_nth [OF lt] unfolding s201 .
  have mem: "lines ! 200 \<in> set lines" and sub: "set (take 200 lines) \<subseteq> set lines"
    using assms(2) by (auto dest: in_set_takeD)
  have "exec_loop eos ([], [], emits lines, 0) =
      exec_loop eos ([], [], emits (take 200 lines) @ emits (lines ! 200 # drop 201 lines), 0)"
    by (subst split) (simp only: emits_append)
  also have "\<dots> = exec_loop eos ([] @ map (str_rstrip_chars [NL, CR]) (take 200 lines), [],
      emits (lines ! 200 # drop 201 lines), 0)"
    using assms sub by (intro exec_loop_lines) auto
  also have "\<dots> = (Inr OutputLimit,
      (map (str_rstrip_chars [NL, CR]) (take 200 lines) @
         [str_rstrip_chars [NL, CR] (lines ! 200), TRUNCATION_MARKER], [],
       emits (drop 201 lines), 0))"
    using assms mem by (simp add: emits_Cons exec_loop_overflow)
  also have "map (str_rstrip_chars [NL, CR]) (take 200 lines) @
         [str_rstrip_chars [NL, CR] (lines ! 200), TRUNCATION_MARKER] =
      map (str_rstrip_chars [NL, CR]) (take 201 lines) @ [TRUNCATION_MARKER]"
    by (simp add: take201)
  finally show ?thesis .
qed

lemma marker_visible: "str_strip (str_join [NL] (ls @ [TRUNCATION_MARKER])) \<noteq> []"
proof -
  have "46 \<in> set TRUNCATION_MARKER"
    by (simp add: TRUNCATION_MARKER_def ascii_def)
  then have "46 \<in> set (str_join [NL] (ls @ [TRUNCATION_MARKER]))"
    using set_str_join [of TRUNCATION_MARKER "ls @ [TRUNCATION_MARKER]" "[NL]"] by auto
  moreover have "\<not> isspace 46"
    by (simp add: isspace_def)
  ultimately show ?thesis
    by (auto simp: str_strip_empty_iff list_all_iff)
qed

lemma marker_no_NL: "NL \<notin> set TRUNCATION_MARKER"
  by (simp add: TRUNCATION_MARKER_def ascii_def NL_def)

lemma finish_truncated:
  "finish command (ls @ [TRUNCATION_MARKER]) [] = str_join [NL] (ls @ [TRUNCATION_MARKER])"
  using marker_visible [of ls]
  by (simp add: finish_def Let_def) (simp add: str_strip_def str_lstrip_def str_rstrip_def)

lemma x_lines_plain:
  "\<forall>l\<in>set (x_lines n).
     NL \<notin> set l \<and> \<not> sublist PROMPT l \<and> str_rstrip_chars [NL, CR] l \<noteq> []"
proof
  fix l
  assume "l \<in> set (x_lines n)"
  then obtain i where l: "l = replicate (Suc i) 120"
    by (auto simp: x_lines_def)
  have "112 \<in> set PROMPT"
    by (simp add: PROMPT_def ascii_def)
  moreover have "112 \<notin> set l"
    by (simp add: l)
  ultimately have "\<not> sublist PROMPT l"
    using set_mono_sublist by blast
  moreover have "str_rstrip_chars [NL, CR] l = l"
    by (simp add: l str_rstrip_chars_def NL_def CR_def del: replicate_Suc)
  ultimately show "NL \<notin> set l \<and> \<not> sublist PROMPT l \<and> str_rstrip_chars [NL, CR] l \<noteq> []"
    by (simp add: l NL_def)
qed

lemma x_lines_rstrip: "map (str_rstrip_chars [NL, CR]) (x_lines n) = x_lines n"
  by (simp add: x_lines_def str_rstrip_chars_def NL_def CR_def del: replicate_Suc)

lemma take_x_lines: "k \<le> n \<Longrightarrow> take k (x_lines n) = x_lines k"
  by (simp add: x_lines_def take_map min_def)

lemma x_lines_flood:
  assumes "201 \<le> n"
  shows "exec_loop eos ([], [], emits (x_lines n), 0) =
     (Inr OutputLimit,
      (x_lines 201 @ [TRUNCATION_MARKER], [], emits (drop 201 (x_lines n)), 0))"
proof -
  have "map (str_rstrip_chars [NL, CR]) (take 201 (x_lines n)) = x_lines 201"
    using assms by (simp add: take_x_lines x_lines_rstrip)
  moreover have "201 \<le> length (x_lines n)"
    using assms by (simp add: x_lines_def)
  ultimately show ?thesis
    using exec_loop_flood [OF x_lines_plain, of n eos] by simp
qed

section \<open>Concrete runs\<close>


text \<open>One write by a child that then closes its stream: the closed pipe stays
  readable, so the loop reaches all that the stream holds.\<close>

lemma framing_loop_closed:
  "exec_loop Closed ([], [], [Chunk framing_text], 0) =
     (Inr PromptBuffer,
      ([ascii ''foo'', ascii ''result-line'', ascii ''pwndbg>''], ascii ''pwndbg>'',
       [Held [32]], 0))"
  by (simp add: framing_text_def exec_loop_Chunk exec_loop_Held_Closed on_char_eval)




lemma framing_finish:
  "finish command [ascii ''foo'', ascii ''result-line'', ascii ''pwndbg>''] (ascii ''pwndbg>'') =
     ascii ''foo\<newline>result-line\<newline>pwndbg>\<newline>pwndbg>''"
  by (simp add: finish_def str_eval)


text \<open>The operation on a session made of a child without write faults, from the
  result of the loop.\<close>

lemma session_run:
  assumes "stdin_fault c = None" and "flush_fault c = None"
    and "exec_loop (out_end c) ([], [], out_events c, 0) = (Inr r, (ls, buf, evs, t))"
  shows "fst (execute_safe_command command (session_of c)) = Inr (finish command ls buf)"
    and "map_option out_events (gdb_process (snd (execute_safe_command command (session_of c)))) =
      Some evs"
  using execute_safe_command_ready [of "session_of c" c r ls buf evs t command] assms
  by (simp_all add: session_of_def)

lemma idle_child_no_faults:
  "stdin_fault (idle_child\<lparr>out_events := evs\<rparr>) = None"
  "flush_fault (idle_child\<lparr>out_events := evs\<rparr>) = None"
  "stdin_fault (idle_child\<lparr>out_events := evs, out_end := eos\<rparr>) = None"
  "flush_fault (idle_child\<lparr>out_events := evs, out_end := eos\<rparr>) = None"
  "out_end (idle_child\<lparr>out_events := evs\<rparr>) = Silent"
  by (simp_all add: idle_child_def)


lemma framing_run_closed:
  "fst (execute_safe_command command
       (session_of (idle_child\<lparr>out_events := [Chunk framing_text], out_end := Closed\<rparr>))) =
     Inr (ascii ''foo\<newline>result-line\<newline>pwndbg>\<newline>pwndbg>'')"
  "map_option out_events (gdb_process (snd (execute_safe_command command
       (session_of (idle_child\<lparr>out_events := [Chunk framing_text], out_end := Closed\<rparr>))))) =
     Some [Held [32]]"
proof -
  have loop: "exec_loop
       (out_end (idle_child\<lparr>out_events := [Chunk framing_text], out_end := Closed\<rparr>))
       ([], [],
        out_events (idle_child\<lparr>out_events := [Chunk framing_text], out_end := Closed\<rparr>), 0) =
     (Inr PromptBuffer,
      ([ascii ''foo'', ascii ''result-line'', ascii ''pwndbg>''], ascii ''pwndbg>'',
       [Held [32]], 0))"
    by (simp add: framing_loop_closed)
  show "fst (execute_safe_command command
       (session_of (idle_child\<lparr>out_events := [Chunk framing_text], out_end := Closed\<rparr>))) =
     Inr (ascii ''foo\<newline>result-line\<newline>pwndbg>\<newline>pwndbg>'')"
    using session_run(1) [OF idle_child_no_faults(3,4) loop, of command]
    by (simp only: framing_finish)
  show "map_option out_events (gdb_process (snd (execute_safe_command command
       (session_of (idle_child\<lparr>out_events := [Chunk framing_text], out_end := Closed\<rparr>))))) =
     Some [Held [32]]"
    using session_run(2) [OF idle_child_no_faults(3,4) loop, of command] .
qed





lemma fault_example:
  "exec_loop Silent ([], [], [Chr 120, Fault (Exn (ascii ''Broken pipe''))], 0) =
     (Inl (Exn (ascii ''Broken pipe'')), ([], [120], [], 0))"
  by (simp add: exec_loop_Chr exec_loop_Fault on_char_eval)

lemma split_heap_semicolon:
  "str_split (ascii ''heap; rm -rf /'') =
     [ascii ''heap;'', ascii ''rm'', ascii ''-rf'', ascii ''/'']"
  by (simp add: str_split_def ascii_def isspace_def)

lemma heap_semicolon_not_allowed: "ascii ''heap;'' \<notin> set ALLOWED_COMMANDS"
  by (simp add: ALLOWED_COMMANDS_def ascii_def)

lemma heap_allowed: "ascii ''heap'' \<in> set ALLOWED_COMMANDS"
  by (simp add: ALLOWED_COMMANDS_def)

lemma gate_heap_semicolon:
  "execute_custom_command ulower (ascii ''heap; rm -rf /'') st = (Inr msg_not_whitelisted, st)"
  using heap_semicolon_not_allowed
  by (simp add: execute_custom_command_def split_heap_semicolon) (simp add: ascii_def)

lemma split_heap_spaced:
  "str_split (ascii ''heap ; rm -rf /'') =
     [ascii ''heap'', ascii '';'', ascii ''rm'', ascii ''-rf'', ascii ''/'']"
  by (simp add: str_split_def ascii_def isspace_def)

lemma lower_heap_spaced:
  "str_lower ulower (ascii ''heap ; rm -rf /'') = ascii ''heap ; rm -rf /''"
  by (simp add: str_lower_def ascii_def ascii_lower_def)

lemma find_rm:
  "find (\<lambda>pattern. str_contains pattern (ascii ''heap ; rm -rf /'')) dangerous_patterns =
     Some (ascii ''rm'')"
  by (simp add: dangerous_patterns_def ascii_def)

lemma gate_heap_spaced:
  "execute_custom_command ulower (ascii ''heap ; rm -rf /'') st =
     (Inr (msg_dangerous_pattern (ascii ''rm'')), st)"
  using heap_allowed
  by (simp add: execute_custom_command_def split_heap_spaced lower_heap_spaced find_rm)
    (simp add: ascii_def)

lemma not_whitelisted_names_no_pattern:
  "msg_not_whitelisted \<notin> set (map msg_dangerous_pattern dangerous_patterns)"
  by (simp add: msg_not_whitelisted_def msg_dangerous_pattern_def ascii_def
      dangerous_patterns_def)

section \<open>Claims\<close>

text \<open>
  C9. For every session that has not completed a successful start (the connection
  status is false), the command-execution operation returns the "not ready" text and
  performs no write to the child's input pipe and no read from its output pipe: the
  globals, the child and its pipes are returned as they were.
\<close>

theorem not_connected_touches_nothing:
  "\<not> is_connected st \<Longrightarrow> execute_safe_command command st = (Inr msg_not_connected, st)"
  by (simp add: execute_safe_command_def)

theorem not_connected_touches_nothing_witness:
  "\<not> is_connected
       (no_session\<lparr>gdb_process := Some (idle_child\<lparr>out_events := emits [ascii ''x'']\<rparr>)\<rparr>) \<and>
   execute_safe_command (ascii ''heap'')
       (no_session\<lparr>gdb_process := Some (idle_child\<lparr>out_events := emits [ascii ''x'']\<rparr>)\<rparr>) =
     (Inr msg_not_connected,
      no_session\<lparr>gdb_process := Some (idle_child\<lparr>out_events := emits [ascii ''x'']\<rparr>)\<rparr>)"
  using not_connected_touches_nothing
    [of "no_session\<lparr>gdb_process := Some (idle_child\<lparr>out_events := emits [ascii ''x'']\<rparr>)\<rparr>"
        "ascii ''heap''"]
  by (simp add: no_session_def)

text \<open>
  C10. Each fixed operation that requires its argument (\<open>malloc_chunk\<close>, \<open>search\<close>,
  \<open>find\<close>), called with the empty string, returns its error text at once and writes
  nothing to the child's input pipe, whatever the state of the session.
\<close>

theorem empty_argument_rejected:
  "malloc_chunk [] st = (Inr msg_no_address, st) \<and>
   search [] st = (Inr msg_no_pattern, st) \<and>
   find_tool [] st = (Inr msg_no_pattern, st)"
  by (simp add: malloc_chunk_def search_def find_tool_def)

theorem empty_argument_rejected_witness:
  "malloc_chunk [] (session_of idle_child) = (Inr msg_no_address, session_of idle_child) \<and>
   search [] (session_of idle_child) = (Inr msg_no_pattern, session_of idle_child) \<and>
   find_tool [] (session_of idle_child) = (Inr msg_no_pattern, session_of idle_child)"
  using empty_argument_rejected [of "session_of idle_child"] .

text \<open>
  C8. Calling \<open>start_debug_session\<close> while a session is active returns the "already
  active" text and spawns no second child: the handle, the connection status and the
  log of spawned processes are unchanged.
\<close>

theorem start_while_active:
  "is_connected st \<Longrightarrow>
   start_debug_session env binary_path st = (Inr msg_already_active, st)"
  by (simp add: start_debug_session_def)

theorem start_while_active_witness:
  "is_connected (session_of idle_child) \<and>
   start_debug_session plain_env (ascii ''/bin/ls'') (session_of idle_child) =
     (Inr msg_already_active, session_of idle_child)"
  using start_while_active [of "session_of idle_child" plain_env "ascii ''/bin/ls''"]
  by (simp add: session_of_def)

text \<open>
  C4 as the specification states it: for every session whose status is not
  Disconnected, \<open>stop()\<close> requests termination, releases the handle even when the
  request fails, and leaves the status Disconnected. The code does not: when
  \<open>terminate()\<close> raises, the handler of line 233 returns the failure text and both
  globals keep their values.
\<close>

theorem stop_keeps_session_counterexample:
  "is_connected (snd (stop_debug_session
       (session_of (idle_child\<lparr>terminate_fault := Some (Exn (ascii ''denied''))\<rparr>)))) \<and>
   gdb_process (snd (stop_debug_session
       (session_of (idle_child\<lparr>terminate_fault := Some (Exn (ascii ''denied''))\<rparr>)))) =
     Some (idle_child\<lparr>terminate_fault := Some (Exn (ascii ''denied''))\<rparr>)"
  by (simp add: stop_debug_session_def session_of_def)

text \<open>
  C4, amended. If the status is already Disconnected, \<open>stop()\<close> returns the "not
  active" text and changes nothing. If a session is active and the termination
  request succeeds, \<open>stop()\<close> requests termination of the child, releases the handle
  and leaves the status Disconnected. If the termination request raises, \<open>stop()\<close>
  returns the failure as text and leaves the handle and the status as they were.
\<close>

theorem stop_debug_session_outcomes:
  "(\<not> is_connected st \<longrightarrow> stop_debug_session st = (Inr msg_not_active, st)) \<and>
   (is_connected st \<longrightarrow> gdb_process st = Some c \<longrightarrow> terminate_fault c = None \<longrightarrow>
      stop_debug_session st =
        (Inr msg_stopped,
         st\<lparr>gdb_process := None, is_connected := False,
            os_log := os_log st @ [Terminate]\<rparr>)) \<and>
   (is_connected st \<longrightarrow> gdb_process st = Some c \<longrightarrow> terminate_fault c = Some e \<longrightarrow>
      stop_debug_session st = (Inr (msg_stop_failed e), st))"
  by (simp add: stop_debug_session_def)

theorem stop_debug_session_outcomes_witness:
  "stop_debug_session no_session = (Inr msg_not_active, no_session) \<and>
   stop_debug_session (session_of idle_child) =
     (Inr msg_stopped, no_session\<lparr>os_log := [Terminate]\<rparr>) \<and>
   stop_debug_session
       (session_of (idle_child\<lparr>terminate_fault := Some (Exn (ascii ''denied''))\<rparr>)) =
     (Inr (msg_stop_failed (Exn (ascii ''denied''))),
      session_of (idle_child\<lparr>terminate_fault := Some (Exn (ascii ''denied''))\<rparr>))"
  using stop_debug_session_outcomes [of no_session idle_child "Exn []"]
    stop_debug_session_outcomes [of "session_of idle_child" idle_child "Exn []"]
    stop_debug_session_outcomes
      [of "session_of (idle_child\<lparr>terminate_fault := Some (Exn (ascii ''denied''))\<rparr>)"
          "idle_child\<lparr>terminate_fault := Some (Exn (ascii ''denied''))\<rparr>"
          "Exn (ascii ''denied'')"]
  by (simp add: no_session_def session_of_def idle_child_def)

text \<open>
  C3 as the specification states it: \<open>heap; rm -rf /\<close> is rejected with the
  DangerousPattern rejection. The code splits the command at whitespace, so the base
  command is \<open>heap;\<close>, and the whitelist check of line 359 rejects it first: the text
  returned is the NotWhitelisted one, which is none of the DangerousPattern texts.
\<close>

theorem gate_heap_semicolon_counterexample:
  "fst (execute_custom_command id (ascii ''heap; rm -rf /'') (session_of idle_child)) =
     Inr msg_not_whitelisted \<and>
   msg_not_whitelisted \<notin> set (map msg_dangerous_pattern dangerous_patterns)"
  using gate_heap_semicolon [of id "session_of idle_child"] not_whitelisted_names_no_pattern
  by simp

text \<open>
  C3, amended. The validator rejects \<open>heap; rm -rf /\<close>, with the NotWhitelisted
  rejection (its base command is \<open>heap;\<close>), even though \<open>heap\<close> alone is whitelisted,
  and nothing reaches the session. The DangerousPattern rejection, naming \<open>rm\<close>, is
  what \<open>heap ; rm -rf /\<close> gets, where whitespace ends the base command \<open>heap\<close>.
\<close>

theorem gate_rejects_heap_rm:
  "execute_custom_command ulower (ascii ''heap; rm -rf /'') st = (Inr msg_not_whitelisted, st) \<and>
   ascii ''heap'' \<in> set ALLOWED_COMMANDS \<and>
   execute_custom_command ulower (ascii ''heap ; rm -rf /'') st =
     (Inr (msg_dangerous_pattern (ascii ''rm'')), st)"
  using gate_heap_semicolon gate_heap_spaced heap_allowed by simp

theorem gate_rejects_heap_rm_witness:
  "execute_custom_command id (ascii ''heap; rm -rf /'') (session_of idle_child) =
     (Inr msg_not_whitelisted, session_of idle_child) \<and>
   ascii ''heap'' \<in> set ALLOWED_COMMANDS \<and>
   execute_custom_command id (ascii ''heap ; rm -rf /'') (session_of idle_child) =
     (Inr (msg_dangerous_pattern (ascii ''rm'')), session_of idle_child)"
  using gate_rejects_heap_rm [of id "session_of idle_child"] .

text \<open>
  C5. Every operation a caller can invoke returns a string and raises nothing. In
  particular a fault of the command write, of the flush after it, and a fault
  anywhere in the read loop, is caught inside \<open>_execute_safe_command\<close> and returned as
  the failure text of line 120: the eleven characters of its Korean heading ("command
  execution failed", a colon and a space) followed by the exception's message.
\<close>

theorem tools_always_return_text:
  "(\<exists>text. fst (call_tool env tc st) = Inr text) \<and>
   (is_connected st \<longrightarrow> gdb_process st = Some c \<longrightarrow> stdin_fault c = Some e \<longrightarrow>
      execute_safe_command command st =
        (Inr ([47749, 47161, 50612, 32, 49892, 54665, 32, 49892, 54056, 58, 32] @ exn_str e),
         st)) \<and>
   (is_connected st \<longrightarrow> gdb_process st = Some c \<longrightarrow> stdin_fault c = None \<longrightarrow>
      flush_fault c = Some e \<longrightarrow>
      fst (execute_safe_command command st) =
        Inr ([47749, 47161, 50612, 32, 49892, 54665, 32, 49892, 54056, 58, 32] @ exn_str e)) \<and>
   (is_connected st \<longrightarrow> gdb_process st = Some c \<longrightarrow> stdin_fault c = None \<longrightarrow>
      flush_fault c = None \<longrightarrow>
      exec_loop (out_end c) ([], [], out_events c, 0) = (Inl e, s') \<longrightarrow>
      fst (execute_safe_command command st) =
        Inr ([47749, 47161, 50612, 32, 49892, 54665, 32, 49892, 54056, 58, 32] @ exn_str e))"
proof -
  have heading: "msg_exec_failed e =
      [47749, 47161, 50612, 32, 49892, 54665, 32, 49892, 54056, 58, 32] @ exn_str e"
    by (simp add: msg_exec_failed_def ascii_def)
  show ?thesis
    using call_tool_returns [of env tc st] write_fault_caught [of st c e command]
      flush_fault_caught [of st c e command] read_fault_caught [of st c e s' command]
    unfolding heading by blast
qed

theorem tools_always_return_text_witness:
  "(\<exists>text. fst (call_tool plain_env (Malloc_chunk (ascii ''0x10''))
       (session_of (idle_child\<lparr>stdin_fault := Some (Exn (ascii ''Broken pipe''))\<rparr>))) =
         Inr text) \<and>
   execute_safe_command (ascii ''heap'')
       (session_of (idle_child\<lparr>stdin_fault := Some (Exn (ascii ''Broken pipe''))\<rparr>)) =
     (Inr ([47749, 47161, 50612, 32, 49892, 54665, 32, 49892, 54056, 58, 32] @
           ascii ''Broken pipe''),
      session_of (idle_child\<lparr>stdin_fault := Some (Exn (ascii ''Broken pipe''))\<rparr>)) \<and>
   fst (execute_safe_command (ascii ''heap'')
       (session_of (idle_child\<lparr>flush_fault := Some (Exn (ascii ''Broken pipe''))\<rparr>))) =
     Inr ([47749, 47161, 50612, 32, 49892, 54665, 32, 49892, 54056, 58, 32] @
          ascii ''Broken pipe'') \<and>
   fst (execute_safe_command (ascii ''heap'')
       (session_of
          (idle_child\<lparr>out_events := [Chr 120, Fault (Exn (ascii ''Broken pipe''))]\<rparr>))) =
     Inr ([47749, 47161, 50612, 32, 49892, 54665, 32, 49892, 54056, 58, 32] @
          ascii ''Broken pipe'')"
  using tools_always_return_text
      [of plain_env "Malloc_chunk (ascii ''0x10'')"
          "session_of (idle_child\<lparr>stdin_fault := Some (Exn (ascii ''Broken pipe''))\<rparr>)"
          "idle_child\<lparr>stdin_fault := Some (Exn (ascii ''Broken pipe''))\<rparr>"
          "Exn (ascii ''Broken pipe'')" "ascii ''heap''"]
    tools_always_return_text
      [of plain_env Heap
          "session_of (idle_child\<lparr>flush_fault := Some (Exn (ascii ''Broken pipe''))\<rparr>)"
          "idle_child\<lparr>flush_fault := Some (Exn (ascii ''Broken pipe''))\<rparr>"
          "Exn (ascii ''Broken pipe'')" "ascii ''heap''"]
    tools_always_return_text
      [of plain_env Heap
          "session_of
             (idle_child\<lparr>out_events := [Chr 120, Fault (Exn (ascii ''Broken pipe''))]\<rparr>)"
          "idle_child\<lparr>out_events := [Chr 120, Fault (Exn (ascii ''Broken pipe''))]\<rparr>"
          "Exn (ascii ''Broken pipe'')" "ascii ''heap''" "([], [120], [], 0)"]
    fault_example
  by (simp add: session_of_def idle_child_def)

text \<open>
  C6 as stated, for every argument string: the fixed operations interpolate the
  argument after their base command and forward it. For the empty string
  \<open>malloc_chunk\<close> forwards nothing: it returns its error text and the child's input
  pipe stays empty.
\<close>

theorem empty_argument_not_forwarded_counterexample:
  "malloc_chunk [] (session_of idle_child) = (Inr msg_no_address, session_of idle_child) \<and>
   written (snd (malloc_chunk [] (session_of idle_child))) = Some []"
  by (simp add: malloc_chunk_def written_def session_of_def idle_child_def)

text \<open>
  C6, amended. For every non-empty argument string, the fixed argument-taking
  operations (\<open>malloc_chunk\<close>, \<open>search\<close>, \<open>find\<close>, \<open>telescope\<close>) interpolate the argument
  after their literal base command and a space and forward the result to the session
  with none of the checks of \<open>execute_custom_command\<close>: when the session is ready,
  the command line is written to the child's input pipe whatever the argument
  contains, a \<open>;\<close> or a \<open>|\<close> included.
\<close>

theorem fixed_operations_forward_unvalidated:
  assumes "arg \<noteq> []" and "is_connected st" and "gdb_process st = Some c"
    and "stdin_fault c = None"
  shows "written (snd (malloc_chunk arg st)) =
       Some (stdin_log c @ [ascii ''chunk '' @ arg @ [NL]]) \<and>
     written (snd (search arg st)) =
       Some (stdin_log c @ [ascii ''search '' @ arg @ [NL]]) \<and>
     written (snd (find_tool arg st)) =
       Some (stdin_log c @ [ascii ''find '' @ arg @ [NL]]) \<and>
     written (snd (telescope arg st)) =
       Some (stdin_log c @ [ascii ''telescope '' @ arg @ [NL]])"
  using assms
  by (simp add: malloc_chunk_def search_def find_tool_def telescope_def
      execute_safe_command_writes)

theorem fixed_operations_forward_unvalidated_witness:
  "ascii ''0x10; rm -rf / | x'' \<noteq> [] \<and> is_connected (session_of idle_child) \<and>
   gdb_process (session_of idle_child) = Some idle_child \<and> stdin_fault idle_child = None \<and>
   written (snd (malloc_chunk (ascii ''0x10; rm -rf / | x'') (session_of idle_child))) =
     Some (stdin_log idle_child @ [ascii ''chunk '' @ ascii ''0x10; rm -rf / | x'' @ [NL]]) \<and>
   written (snd (search (ascii ''0x10; rm -rf / | x'') (session_of idle_child))) =
     Some (stdin_log idle_child @ [ascii ''search '' @ ascii ''0x10; rm -rf / | x'' @ [NL]]) \<and>
   written (snd (find_tool (ascii ''0x10; rm -rf / | x'') (session_of idle_child))) =
     Some (stdin_log idle_child @ [ascii ''find '' @ ascii ''0x10; rm -rf / | x'' @ [NL]]) \<and>
   written (snd (telescope (ascii ''0x10; rm -rf / | x'') (session_of idle_child))) =
     Some (stdin_log idle_child @ [ascii ''telescope '' @ ascii ''0x10; rm -rf / | x'' @ [NL]])"
  using fixed_operations_forward_unvalidated
    [of "ascii ''0x10; rm -rf / | x''" "session_of idle_child" idle_child]
  by (simp add: session_of_def idle_child_def ascii_def)







text \<open>
  C2. The specification expects 201 lines, the 201st being the truncation marker,
  from a child that emits 500 distinct non-empty lines. The code tests
  \<open>len(output_lines) > 200\<close>, which holds only once 201 lines are collected: for every
  child that emits 201 or more of the lines \<open>x\<close>, \<open>xx\<close>, \<open>xxx\<close>, ... (every character
  polled readable, as \<open>emits\<close> delivers them) the operation returns
  the first 201 lines and the marker, 202 lines separated by 201 line feeds, although
  the marker itself announces a limit of 200 lines.
\<close>

theorem flood_keeps_201_lines:
  assumes "201 \<le> n" and "is_connected st" and "gdb_process st = Some c"
    and "stdin_fault c = None" and "flush_fault c = None"
    and "out_events c = emits (x_lines n)"
  shows "fst (execute_safe_command command st) =
       Inr (str_join [NL] (x_lines 201 @ [TRUNCATION_MARKER])) \<and>
     length (x_lines 201 @ [TRUNCATION_MARKER]) = 202 \<and>
     length (filter (\<lambda>c. c = NL) (str_join [NL] (x_lines 201 @ [TRUNCATION_MARKER]))) + 1 =
       202"
proof -
  have "exec_loop (out_end c) ([], [], out_events c, 0) =
     (Inr OutputLimit,
      (x_lines 201 @ [TRUNCATION_MARKER], [], emits (drop 201 (x_lines n)), 0))"
    using x_lines_flood [OF assms(1)] assms(6) by simp
  from execute_safe_command_ready [OF assms(2-5) this, of command]
  have "fst (execute_safe_command command st) =
       Inr (str_join [NL] (x_lines 201 @ [TRUNCATION_MARKER]))"
    by (simp add: finish_truncated)
  moreover have len: "length (x_lines 201 @ [TRUNCATION_MARKER]) = 202"
    by (simp add: x_lines_def)
  moreover have
    "length (filter (\<lambda>c. c = NL) (str_join [NL] (x_lines 201 @ [TRUNCATION_MARKER]))) + 1 =
      length (x_lines 201 @ [TRUNCATION_MARKER])"
    using x_lines_plain [of 201] marker_no_NL by (intro count_str_join) auto
  ultimately show ?thesis
    by simp
qed

theorem flood_keeps_201_lines_witness:
  "(201::nat) \<le> 500 \<and>
   fst (execute_safe_command (ascii ''heap'')
       (session_of (idle_child\<lparr>out_events := emits (x_lines 500)\<rparr>))) =
     Inr (str_join [NL] (x_lines 201 @ [TRUNCATION_MARKER])) \<and>
   length (x_lines 201 @ [TRUNCATION_MARKER]) = 202 \<and>
   length (filter (\<lambda>c. c = NL) (str_join [NL] (x_lines 201 @ [TRUNCATION_MARKER]))) + 1 =
     202"
  using flood_keeps_201_lines
    [of 500 "session_of (idle_child\<lparr>out_events := emits (x_lines 500)\<rparr>)"
        "idle_child\<lparr>out_events := emits (x_lines 500)\<rparr>" "ascii ''heap''"]
  by (simp add: session_of_def idle_child_def)

end
